theory Spec2Isabelle
  imports Main
begin

section \<open>Python values used by \<open>main-git.py\<close>\<close>

text \<open>
  A Python \<open>str\<close> is the list of the bytes of its UTF-8 encoding: equality, emptiness
  and concatenation of strings are those of the byte lists, and a character outside
  ASCII takes several bytes. What Python computes from the characters of a string
  (\<open>str.lower()\<close>, \<open>str.upper()\<close>) is not computed here: it is a function of the
  environment below.

  The service handles JSON documents (the body of the search response, the value kept in
  Redis, the \<open>metadata\<close> column). A JSON document is a Python value built from
  \<open>None\<close>, booleans, integers, strings, lists and dicts; a dict is an association list
  whose lookup takes the first binding of a key. Python's \<open>None\<close> and JSON's \<open>null\<close>
  are the same value \<open>JNull\<close>, as \<open>json.loads("null")\<close> is \<open>None\<close>. Floating point
  numbers are left out: no code path of the file looks inside a number.
\<close>

datatype json =
    JNull
  | JBool bool
  | JNum int
  | JStr string
  | JArr "json list"
  | JObj "(string \<times> json) list"

text \<open>
  Every \<open>raise\<close> of the file and every exception a library call of the file can raise
  is an error value. \<open>HTTPException\<close> carries its status code (the Czech \<open>detail\<close>
  text is dropped). The other constructors are the exceptions that the file never
  catches: a failure of \<open>client.get\<close> inside httpx, a failure of the Redis connection,
  a body or cached string that is not JSON, an attribute or iteration that the value's
  Python type does not have, and three errors of the database driver: a query argument
  that does not fit its column (\<open>DataError\<close>), the unique constraint of the
  \<open>symbol\<close> column, and an \<open>UPDATE\<close> statement with an empty \<open>SET\<close> list.
\<close>

datatype error =
    HTTPException nat
  | HttpxTransportError
  | RedisConnectionError
  | JSONDecodeError
  | AttributeError
  | TypeError
  | DataError
  | UniqueViolationError
  | PostgresSyntaxError

text \<open>Python truthiness, as \<open>if coin_info:\<close> and \<open>if not metadata:\<close> use it.\<close>

fun truthy :: "json \<Rightarrow> bool" where
  "truthy JNull = False"
| "truthy (JBool b) = b"
| "truthy (JNum n) = (n \<noteq> 0)"
| "truthy (JStr s) = (s \<noteq> [])"
| "truthy (JArr xs) = (xs \<noteq> [])"
| "truthy (JObj kvs) = (kvs \<noteq> [])"

text \<open>\<open>d.get(k, default)\<close>: only a dict has the method.\<close>

fun dict_get :: "json \<Rightarrow> string \<Rightarrow> json \<Rightarrow> error + json" where
  "dict_get (JObj kvs) k d = Inr (case map_of kvs k of None \<Rightarrow> d | Some v \<Rightarrow> v)"
| "dict_get _ k d = Inl AttributeError"

text \<open>
  \<open>for coin in coins\<close>: a list yields its elements, a dict its keys, a string one
  string per character (here per byte: the loop body fails on the first of them either
  way, since a string has no \<open>get\<close>); \<open>None\<close>, booleans and numbers are not iterable.
\<close>

fun py_iter :: "json \<Rightarrow> error + json list" where
  "py_iter (JArr xs) = Inr xs"
| "py_iter (JObj kvs) = Inr (map (\<lambda>kv. JStr (fst kv)) kvs)"
| "py_iter (JStr s) = Inr (map (\<lambda>c. JStr [c]) s)"
| "py_iter _ = Inl TypeError"

section \<open>The Redis client\<close>

text \<open>
  The Redis server is a store from keys to a string and the time at which the key
  expires (\<open>None\<close>: the key has no expiry), and it is reachable or not. Time is counted
  in seconds. \<open>GET\<close> answers \<open>None\<close> for an absent or expired key; \<open>SET key value EX ttl\<close>
  overwrites the key and lets it expire \<open>ttl\<close> seconds later. Both raise when the server
  cannot be reached.
\<close>

record redis =
  reachable :: bool
  store :: "string \<rightharpoonup> (string \<times> nat option)"

definition redis_get :: "redis \<Rightarrow> nat \<Rightarrow> string \<Rightarrow> error + string option" where
  "redis_get r t k =
     (if \<not> reachable r then Inl RedisConnectionError
      else Inr (case store r k of
                  None \<Rightarrow> None
                | Some (v, None) \<Rightarrow> Some v
                | Some (v, Some e) \<Rightarrow> if t < e then Some v else None))"

definition redis_set :: "redis \<Rightarrow> nat \<Rightarrow> string \<Rightarrow> string \<Rightarrow> nat \<Rightarrow> error + redis" where
  "redis_set r t k v ex =
     (if \<not> reachable r then Inl RedisConnectionError
      else Inr (r\<lparr>store := (store r)(k \<mapsto> (v, Some (t + ex)))\<rparr>))"

section \<open>The table \<open>cryptos\<close>\<close>

text \<open>
  A row of the model \<open>Crypto\<close>. The column \<open>id\<close> is a 32-bit integer, written as an
  \<open>int\<close> within that range. The column \<open>name\<close> holds what \<open>metadata.get("name")\<close>
  returned, \<open>JNull\<close> when the key is missing.
\<close>

record crypto =
  crypto_id :: int
  crypto_symbol :: string
  crypto_name :: json
  crypto_metadata :: json

section \<open>The state of the service and its environment\<close>

text \<open>
  What one call can observe outside the file: the answer of the Coingecko server to a
  URL, the two functions of Python's \<open>json\<close> module, and the two case mappings of
  Python's \<open>str\<close>. The answer is either a failure of the transport (no response:
  connection error, timeout) or a response with its status code and its body as
  \<open>response.json()\<close> parses it (\<open>None\<close>: the body is not JSON). \<open>json_loads\<close>
  answers \<open>None\<close> where \<open>json.loads\<close> raises. \<open>lower\<close> and \<open>upper\<close> stand for
  \<open>str.lower()\<close> and \<open>str.upper()\<close>, whatever Unicode makes them: a theorem about
  every environment holds for Python's.
\<close>

datatype http_outcome =
    Transport_Failure
  | Response nat "json option"

record env =
  http_get :: "string \<Rightarrow> http_outcome"
  json_loads :: "string \<Rightarrow> json option"
  json_dumps :: "json \<Rightarrow> string"
  lower :: "string \<Rightarrow> string"
  upper :: "string \<Rightarrow> string"

text \<open>\<open>v.lower()\<close> on a value taken out of a dict: only a string has the method.\<close>

fun str_lower :: "env \<Rightarrow> json \<Rightarrow> error + string" where
  "str_lower w (JStr s) = Inr (lower w s)"
| "str_lower w _ = Inl AttributeError"

text \<open>
  The calls that leave the process are recorded in a trace, in the order in which they
  are issued, so that a theorem can count them.
\<close>

datatype event =
    CacheGet string
  | CacheSet string string nat
  | HttpGet string

text \<open>
  The global \<open>redis_client\<close> (\<open>None\<close> before startup), the clock, the trace, and the
  table with the next value of its \<open>id\<close> sequence.
\<close>

record state =
  redis_client :: "redis option"
  now :: nat
  trace :: "event list"
  cryptos :: "crypto list"
  next_id :: int

definition emit :: "event \<Rightarrow> state \<Rightarrow> state" where
  "emit ev st = st\<lparr>trace := trace st @ [ev]\<rparr>"

fun is_http :: "event \<Rightarrow> bool" where
  "is_http (HttpGet u) = True"
| "is_http _ = False"

fun is_cache_write :: "event \<Rightarrow> bool" where
  "is_cache_write (CacheSet k v ex) = True"
| "is_cache_write _ = False"

definition external_calls :: "state \<Rightarrow> nat" where
  "external_calls st = length (filter is_http (trace st))"

definition cache_writes :: "state \<Rightarrow> nat" where
  "cache_writes st = length (filter is_cache_write (trace st))"

text \<open>
  The events a call adds to the trace of the state it started from, and the cache key
  an event works on.
\<close>

definition new_events :: "state \<Rightarrow> state \<Rightarrow> event list" where
  "new_events st st' = drop (length (trace st)) (trace st')"

fun event_key :: "event \<Rightarrow> string option" where
  "event_key (CacheGet k) = Some k"
| "event_key (CacheSet k v ex) = Some k"
| "event_key (HttpGet u) = None"

section \<open>\<open>fetch_coin_metadata\<close>\<close>

text \<open>Line 72: \<open>key = f"coingecko:{symbol.lower()}"\<close>.\<close>

definition cache_key :: "env \<Rightarrow> string \<Rightarrow> string" where
  "cache_key w symbol = ''coingecko:'' @ lower w symbol"

text \<open>Line 77: the raw symbol is pasted into the URL.\<close>

definition search_url :: "string \<Rightarrow> string" where
  "search_url symbol = ''https://api.coingecko.com/api/v3/search?query='' @ symbol"

text \<open>
  Line 87: \<open>next((coin for coin in coins if coin.get("symbol", "").lower() ==
  symbol.lower()), None)\<close>. The generator stops at the first coin that passes the test;
  a coin that is no dict, or whose \<open>symbol\<close> is no string, raises before any later coin
  is looked at.
\<close>

fun find_coin :: "env \<Rightarrow> json list \<Rightarrow> string \<Rightarrow> error + json" where
  "find_coin w [] symbol = Inr JNull"
| "find_coin w (coin # coins) symbol =
     (case dict_get coin ''symbol'' (JStr []) of
        Inl e \<Rightarrow> Inl e
      | Inr v \<Rightarrow>
          (case str_lower w v of
             Inl e \<Rightarrow> Inl e
           | Inr s \<Rightarrow> if s = lower w symbol then Inr coin else find_coin w coins symbol))"

text \<open>
  Lines 77 to 91, the path after a cache miss: the request, the status check, the
  selection of the coin, the write to the cache, the return. (\<open>print(response)\<close> writes
  to standard output only and is left out.)
\<close>

definition fetch_from_source ::
  "env \<Rightarrow> redis \<Rightarrow> string \<Rightarrow> string \<Rightarrow> state \<Rightarrow> (error + json) \<times> state" where
  "fetch_from_source w r key symbol st =
     (let url = search_url symbol;
          st2 = emit (HttpGet url) st
      in case http_get w url of
           Transport_Failure \<Rightarrow> (Inl HttpxTransportError, st2)
         | Response status_code body \<Rightarrow>
             if status_code \<noteq> 200 then (Inl (HTTPException 502), st2)
             else
               (case body of
                  None \<Rightarrow> (Inl JSONDecodeError, st2)
                | Some data \<Rightarrow>
                    (case dict_get data ''coins'' (JArr []) of
                       Inl e \<Rightarrow> (Inl e, st2)
                     | Inr coins \<Rightarrow>
                         (case py_iter coins of
                            Inl e \<Rightarrow> (Inl e, st2)
                          | Inr cs \<Rightarrow>
                              (case find_coin w cs symbol of
                                 Inl e \<Rightarrow> (Inl e, st2)
                               | Inr coin_info \<Rightarrow>
                                   if truthy coin_info then
                                     (let v = json_dumps w coin_info;
                                          st3 = emit (CacheSet key v 3600) st2
                                      in case redis_set r (now st) key v 3600 of
                                           Inl e \<Rightarrow> (Inl e, st3)
                                         | Inr r' \<Rightarrow>
                                             (Inr coin_info, st3\<lparr>redis_client := Some r'\<rparr>))
                                   else (Inr coin_info, st2))))))"

text \<open>
  Lines 69 to 76, then the miss path. \<open>if cached:\<close> is false for \<open>None\<close> and for the
  empty string.
\<close>

definition fetch_coin_metadata :: "env \<Rightarrow> string \<Rightarrow> state \<Rightarrow> (error + json) \<times> state" where
  "fetch_coin_metadata w symbol st =
     (case redis_client st of
        None \<Rightarrow> (Inl (HTTPException 500), st)
      | Some r \<Rightarrow>
          (let key = cache_key w symbol;
               st1 = emit (CacheGet key) st
           in case redis_get r (now st) key of
                Inl e \<Rightarrow> (Inl e, st1)
              | Inr None \<Rightarrow> fetch_from_source w r key symbol st1
              | Inr (Some cached) \<Rightarrow>
                  if cached \<noteq> [] then
                    (case json_loads w cached of
                       None \<Rightarrow> (Inl JSONDecodeError, st1)
                     | Some j \<Rightarrow> (Inr j, st1))
                  else fetch_from_source w r key symbol st1))"

section \<open>The table operations of the ORM\<close>

text \<open>
  The database driver encodes the arguments of a statement before it sends the
  statement: an \<open>id\<close> outside the 32-bit range, and a \<open>name\<close> that is neither a string
  nor \<open>None\<close>, raise \<open>DataError\<close> there.
\<close>

definition int32 :: "int \<Rightarrow> bool" where
  "int32 i \<longleftrightarrow> - 2147483648 \<le> i \<and> i \<le> 2147483647"

fun text_or_null :: "json \<Rightarrow> bool" where
  "text_or_null JNull = True"
| "text_or_null (JStr s) = True"
| "text_or_null _ = False"

text \<open>
  \<open>Crypto.query.where(Crypto.symbol == s).gino.first()\<close> and \<open>Crypto.get(id)\<close>: the
  first row with that symbol, the row with that primary key, or \<open>None\<close>.
\<close>

definition query_first_by_symbol :: "string \<Rightarrow> state \<Rightarrow> crypto option" where
  "query_first_by_symbol s st = find (\<lambda>row. crypto_symbol row = s) (cryptos st)"

definition Crypto_get :: "int \<Rightarrow> state \<Rightarrow> error + crypto option" where
  "Crypto_get cid st =
     (if \<not> int32 cid then Inl DataError
      else Inr (find (\<lambda>row. crypto_id row = cid) (cryptos st)))"

text \<open>
  \<open>Crypto.create(symbol=, name=, metadata=)\<close>: the insert takes the next \<open>id\<close>; the
  column \<open>symbol\<close> is \<open>unique=True\<close>, so a second row with a symbol raises.
\<close>

definition Crypto_create ::
  "string \<Rightarrow> json \<Rightarrow> json \<Rightarrow> state \<Rightarrow> (error + crypto) \<times> state" where
  "Crypto_create s n m st =
     (if \<not> text_or_null n then (Inl DataError, st)
      else if list_ex (\<lambda>row. crypto_symbol row = s) (cryptos st)
      then (Inl UniqueViolationError, st)
      else
        (let row = \<lparr>crypto_id = next_id st, crypto_symbol = s,
                    crypto_name = n, crypto_metadata = m\<rparr>
         in (Inr row, st\<lparr>cryptos := cryptos st @ [row], next_id := next_id st + 1\<rparr>)))"

text \<open>
  The keyword arguments of \<open>crypto.update(**update_data)\<close>: a column that is not named
  keeps its value.
\<close>

record update_data =
  upd_symbol :: "string option"
  upd_name :: "json option"
  upd_metadata :: "json option"

definition set_columns :: "update_data \<Rightarrow> crypto \<Rightarrow> crypto" where
  "set_columns u row =
     row\<lparr>crypto_symbol := (case upd_symbol u of None \<Rightarrow> crypto_symbol row | Some s \<Rightarrow> s),
         crypto_name := (case upd_name u of None \<Rightarrow> crypto_name row | Some n \<Rightarrow> n),
         crypto_metadata := (case upd_metadata u of None \<Rightarrow> crypto_metadata row | Some m \<Rightarrow> m)\<rparr>"

text \<open>
  \<open>crypto.update(...).apply()\<close> sends \<open>UPDATE cryptos SET ... WHERE id = ...\<close> with
  one assignment per named column. With no column named the \<open>SET\<close> list is empty and
  the server refuses the statement. Otherwise the named columns of the row with the
  object's primary key are set, in the table and in the object; a new symbol that
  another row holds violates the unique constraint.
\<close>

definition update_apply :: "crypto \<Rightarrow> update_data \<Rightarrow> state \<Rightarrow> (error + crypto) \<times> state" where
  "update_apply crypto u st =
     (if upd_symbol u = None \<and> upd_name u = None \<and> upd_metadata u = None
      then (Inl PostgresSyntaxError, st)
      else if (case upd_name u of None \<Rightarrow> False | Some n \<Rightarrow> \<not> text_or_null n)
      then (Inl DataError, st)
      else if (case upd_symbol u of
                 None \<Rightarrow> False
               | Some s \<Rightarrow>
                   list_ex (\<lambda>row. crypto_id row \<noteq> crypto_id crypto \<and> crypto_symbol row = s)
                     (cryptos st))
      then (Inl UniqueViolationError, st)
      else
        (Inr (set_columns u crypto),
         st\<lparr>cryptos :=
              map (\<lambda>row. if crypto_id row = crypto_id crypto then set_columns u row else row)
                (cryptos st)\<rparr>))"

section \<open>The request handlers\<close>

text \<open>
  Each handler is the body of the Python function: its result is the value it returns
  or the exception that leaves it. What FastAPI does with either (the response model,
  the status line) is outside the file.
\<close>

text \<open>\<open>POST /cryptos\<close>, lines 98 to 108.\<close>

definition create_crypto :: "env \<Rightarrow> string \<Rightarrow> state \<Rightarrow> (error + crypto) \<times> state" where
  "create_crypto w symbol st =
     (case query_first_by_symbol (upper w symbol) st of
        Some existing \<Rightarrow> (Inl (HTTPException 409), st)
      | None \<Rightarrow>
          (case fetch_coin_metadata w symbol st of
             (Inl e, st1) \<Rightarrow> (Inl e, st1)
           | (Inr metadata, st1) \<Rightarrow>
               if \<not> truthy metadata then (Inl (HTTPException 404), st1)
               else
                 (case dict_get metadata ''name'' JNull of
                    Inl e \<Rightarrow> (Inl e, st1)
                  | Inr name \<Rightarrow> Crypto_create (upper w symbol) name metadata st1)))"

text \<open>
  \<open>PUT /cryptos/{crypto_id}\<close>, lines 129 to 142. The body's \<open>symbol\<close> is optional;
  \<open>if crypto_data.symbol:\<close> is false for \<open>None\<close> and for the empty string, and then
  \<open>update_data\<close> stays empty. Line 141 applies the update in either case.
\<close>

definition update_crypto ::
  "env \<Rightarrow> int \<Rightarrow> string option \<Rightarrow> state \<Rightarrow> (error + crypto) \<times> state" where
  "update_crypto w cid symbol st =
     (case Crypto_get cid st of
        Inl e \<Rightarrow> (Inl e, st)
      | Inr None \<Rightarrow> (Inl (HTTPException 404), st)
      | Inr (Some crypto) \<Rightarrow>
          (let empty_update =
                 update_apply crypto
                   \<lparr>upd_symbol = None, upd_name = None, upd_metadata = None\<rparr> st
           in case symbol of
                None \<Rightarrow> empty_update
              | Some s \<Rightarrow>
                  if s = [] then empty_update
                  else
                    (case fetch_coin_metadata w s st of
                       (Inl e, st1) \<Rightarrow> (Inl e, st1)
                     | (Inr metadata, st1) \<Rightarrow>
                         if \<not> truthy metadata then (Inl (HTTPException 404), st1)
                         else
                           (case dict_get metadata ''name'' JNull of
                              Inl e \<Rightarrow> (Inl e, st1)
                            | Inr name \<Rightarrow>
                                update_apply crypto
                                  \<lparr>upd_symbol = Some (upper w s), upd_name = Some name,
                                   upd_metadata = Some metadata\<rparr> st1))))"

text \<open>\<open>POST /cryptos/{crypto_id}/refresh\<close>, lines 155 to 163.\<close>

definition refresh_crypto :: "env \<Rightarrow> int \<Rightarrow> state \<Rightarrow> (error + crypto) \<times> state" where
  "refresh_crypto w cid st =
     (case Crypto_get cid st of
        Inl e \<Rightarrow> (Inl e, st)
      | Inr None \<Rightarrow> (Inl (HTTPException 404), st)
      | Inr (Some crypto) \<Rightarrow>
          (case fetch_coin_metadata w (crypto_symbol crypto) st of
             (Inl e, st1) \<Rightarrow> (Inl e, st1)
           | (Inr metadata, st1) \<Rightarrow>
               if \<not> truthy metadata then (Inl (HTTPException 404), st1)
               else
                 (case dict_get metadata ''name'' JNull of
                    Inl e \<Rightarrow> (Inl e, st1)
                  | Inr name \<Rightarrow>
                      update_apply crypto
                        \<lparr>upd_symbol = None, upd_name = Some name,
                         upd_metadata = Some metadata\<rparr> st1)))"

section \<open>Candidates and matches\<close>

text \<open>
  A candidate of the external source is a JSON object that exposes a string field
  \<open>symbol\<close>; \<open>candidate_symbol\<close> reads it.
\<close>

fun candidate_symbol :: "json \<Rightarrow> string option" where
  "candidate_symbol (JObj kvs) =
     (case map_of kvs ''symbol'' of Some (JStr s) \<Rightarrow> Some s | _ \<Rightarrow> None)"
| "candidate_symbol _ = None"

definition candidates :: "json list \<Rightarrow> bool" where
  "candidates cs = list_all (\<lambda>c. candidate_symbol c \<noteq> None) cs"

text \<open>
  A candidate matches a symbol when the lower-case form of the whole of its \<open>symbol\<close>
  field is the lower-case form of the symbol.
\<close>

definition matches :: "env \<Rightarrow> string \<Rightarrow> json \<Rightarrow> bool" where
  "matches w symbol c =
     (case candidate_symbol c of None \<Rightarrow> False | Some s \<Rightarrow> lower w s = lower w symbol)"

text \<open>The first candidate, in the order of the source, that matches.\<close>

definition first_match :: "env \<Rightarrow> json list \<Rightarrow> string \<Rightarrow> json option" where
  "first_match w cs symbol = find (matches w symbol) cs"

text \<open>A cache lookup misses when \<open>if cached:\<close> fails.\<close>

fun is_miss :: "string option \<Rightarrow> bool" where
  "is_miss None = True"
| "is_miss (Some v) = (v = [])"

section \<open>Concrete scenarios\<close>

text \<open>
  The scenario of the specification's examples: the source answers every search with
  the candidates \<open>BTC2\<close> and \<open>BTC\<close>, in this order; Redis is reachable and empty; the
  table holds one row. The codec of the scenario knows the one record it has to carry.
\<close>

definition btc2_coin :: json where
  "btc2_coin = JObj [(''id'', JStr ''bitcoin-2''), (''name'', JStr ''Bitcoin 2''), (''symbol'', JStr ''BTC2'')]"

definition btc_coin :: json where
  "btc_coin = JObj [(''id'', JStr ''bitcoin''), (''name'', JStr ''Bitcoin''), (''symbol'', JStr ''BTC'')]"

text \<open>
  Three Greek words, in UTF-8: capital alpha, capital sigma (U+0391 U+03A3); small
  alpha, small sigma (U+03B1 U+03C3); small alpha, small final sigma (U+03B1 U+03C2).
  The first is the upper-case spelling of the second.
\<close>

definition capital_alpha_sigma :: string where
  "capital_alpha_sigma = [CHR 0xCE, CHR 0x91, CHR 0xCE, CHR 0xA3]"

definition alpha_sigma :: string where
  "alpha_sigma = [CHR 0xCE, CHR 0xB1, CHR 0xCF, CHR 0x83]"

definition alpha_final_sigma :: string where
  "alpha_final_sigma = [CHR 0xCE, CHR 0xB1, CHR 0xCF, CHR 0x82]"

definition greek_coin :: json where
  "greek_coin =
     JObj [(''id'', JStr ''alpha-sigma''), (''name'', JStr ''Alpha Sigma''),
           (''symbol'', JStr capital_alpha_sigma)]"

text \<open>
  The values of Python's \<open>str.lower()\<close> and \<open>str.upper()\<close> at the strings of the
  scenarios. A string that the table of \<open>lower\<close> does not list is in lower case
  already, one that the table of \<open>upper\<close> does not list is in upper case already.
  \<open>str.lower()\<close> writes a capital sigma at the end of a word as a final sigma.
\<close>

definition lower_values :: "(string \<times> string) list" where
  "lower_values =
     [(''BTC'', ''btc''), (''BTC2'', ''btc2''), (''DOGE'', ''doge''),
      (capital_alpha_sigma, alpha_final_sigma)]"

definition upper_values :: "(string \<times> string) list" where
  "upper_values =
     [(''btc'', ''BTC''), (alpha_sigma, capital_alpha_sigma),
      (alpha_final_sigma, capital_alpha_sigma)]"

definition sample_env :: env where
  "sample_env =
     \<lparr>http_get = (\<lambda>url. Response 200 (Some (JObj [(''coins'', JArr [btc2_coin, btc_coin])]))),
      json_loads = (\<lambda>s. if s = ''btc-record'' then Some btc_coin else None),
      json_dumps = (\<lambda>j. if j = btc_coin then ''btc-record'' else ''other-record''),
      lower = (\<lambda>s. case map_of lower_values s of None \<Rightarrow> s | Some t \<Rightarrow> t),
      upper = (\<lambda>s. case map_of upper_values s of None \<Rightarrow> s | Some t \<Rightarrow> t)\<rparr>"

definition timeout_env :: env where
  "timeout_env = sample_env\<lparr>http_get := (\<lambda>url. Transport_Failure)\<rparr>"

definition bad_gateway_env :: env where
  "bad_gateway_env = sample_env\<lparr>http_get := (\<lambda>url. Response 503 None)\<rparr>"

text \<open>The source answers with the one candidate whose symbol is the capital Greek word.\<close>

definition greek_env :: env where
  "greek_env =
     sample_env\<lparr>http_get := (\<lambda>url. Response 200 (Some (JObj [(''coins'', JArr [greek_coin])])))\<rparr>"

definition btc_row :: crypto where
  "btc_row = \<lparr>crypto_id = 1, crypto_symbol = ''BTC'', crypto_name = JStr ''Bitcoin'',
              crypto_metadata = btc_coin\<rparr>"

definition empty_redis :: redis where
  "empty_redis = \<lparr>reachable = True, store = Map.empty\<rparr>"

definition sample_state :: state where
  "sample_state =
     \<lparr>redis_client = Some empty_redis, now = 1000, trace = [], cryptos = [btc_row], next_id = 2\<rparr>"

text \<open>
  The state one hour minus one second after the first lookup of \<open>BTC\<close> in the
  scenario, and the scenario with a Redis server that cannot be reached.
\<close>

definition cached_state :: state where
  "cached_state = (snd (fetch_coin_metadata sample_env ''BTC'' sample_state))\<lparr>now := 4599\<rparr>"

definition unreachable_state :: state where
  "unreachable_state = sample_state\<lparr>redis_client := Some (empty_redis\<lparr>reachable := False\<rparr>)\<rparr>"

section \<open>The selection of the coin\<close>

text \<open>
  On a list of candidates the generator of line 87 computes the first match; a match is
  never falsy, since it holds a \<open>symbol\<close> field.
\<close>

lemma find_coin_candidate:
  assumes "candidate_symbol c = Some s"
  shows "find_coin w (c # cs) symbol =
           (if lower w s = lower w symbol then Inr c else find_coin w cs symbol)"
proof -
  from assms obtain kvs where c: "c = JObj kvs" and m: "map_of kvs ''symbol'' = Some (JStr s)"
    by (cases c) (auto split: option.splits json.splits)
  show ?thesis
    by (simp add: c m)
qed

lemma find_coin_first_match:
  "candidates cs \<Longrightarrow>
   find_coin w cs symbol = Inr (case first_match w cs symbol of None \<Rightarrow> JNull | Some c \<Rightarrow> c)"
proof (induction cs)
  case Nil
  then show ?case by (simp add: first_match_def)
next
  case (Cons c cs)
  then obtain s where s: "candidate_symbol c = Some s" and rest: "candidates cs"
    by (auto simp: candidates_def)
  show ?case
    using Cons.IH [OF rest]
    by (simp add: find_coin_candidate [OF s] first_match_def matches_def s del: find_coin.simps)
qed



section \<open>The effects of one call\<close>

lemma external_calls_emit [simp]:
  "external_calls (emit ev st) = external_calls st + (if is_http ev then 1 else 0)"
  by (simp add: external_calls_def emit_def)

lemma cache_writes_emit [simp]:
  "cache_writes (emit ev st) = cache_writes st + (if is_cache_write ev then 1 else 0)"
  by (simp add: cache_writes_def emit_def)

lemma emit_fields [simp]:
  "redis_client (emit ev st) = redis_client st"
  "now (emit ev st) = now st"
  "cryptos (emit ev st) = cryptos st"
  "next_id (emit ev st) = next_id st"
  "trace (emit ev st) = trace st @ [ev]"
  by (simp_all add: emit_def)

lemma fetch_from_source_calls:
  "external_calls (snd (fetch_from_source w r key symbol st)) = external_calls st + 1"
  by (simp add: fetch_from_source_def Let_def external_calls_def
      split: http_outcome.splits option.splits sum.splits)

lemma fetch_from_source_table:
  "cryptos (snd (fetch_from_source w r key symbol st)) = cryptos st \<and>
   next_id (snd (fetch_from_source w r key symbol st)) = next_id st \<and>
   now (snd (fetch_from_source w r key symbol st)) = now st"
  by (simp add: fetch_from_source_def Let_def
      split: http_outcome.splits option.splits sum.splits)

lemma fetch_table:
  "cryptos (snd (fetch_coin_metadata w symbol st)) = cryptos st \<and>
   next_id (snd (fetch_coin_metadata w symbol st)) = next_id st \<and>
   now (snd (fetch_coin_metadata w symbol st)) = now st"
  by (simp add: fetch_coin_metadata_def Let_def fetch_from_source_table
      split: option.splits sum.splits)

lemma fetch_hit:
  assumes "redis_client st = Some r"
    and "redis_get r (now st) (cache_key w symbol) = Inr (Some v)"
    and "v \<noteq> []"
  shows "fetch_coin_metadata w symbol st =
           ((case json_loads w v of None \<Rightarrow> Inl JSONDecodeError | Some j \<Rightarrow> Inr j),
            emit (CacheGet (cache_key w symbol)) st)"
  using assms by (simp add: fetch_coin_metadata_def Let_def split: option.splits)

lemma fetch_miss:
  assumes "redis_client st = Some r"
    and "redis_get r (now st) (cache_key w symbol) = Inr cached"
    and "is_miss cached"
  shows "fetch_coin_metadata w symbol st =
           fetch_from_source w r (cache_key w symbol) symbol
             (emit (CacheGet (cache_key w symbol)) st)"
  using assms by (cases cached) (simp_all add: fetch_coin_metadata_def Let_def)


lemma fetch_from_source_absent:
  assumes "http_get w (search_url symbol) = Response 200 (Some data)"
    and "dict_get data ''coins'' (JArr []) = Inr (JArr cs)"
    and "find_coin w cs symbol = Inr c"
    and "\<not> truthy c"
  shows "fetch_from_source w r key symbol st = (Inr c, emit (HttpGet (search_url symbol)) st)"
  using assms by (simp add: fetch_from_source_def Let_def)

lemma fetch_from_source_inv:
  assumes "fetch_from_source w r key symbol st = (Inr c, st1)" and "truthy c"
  shows "redis_client st1 =
           Some (r\<lparr>store := (store r)(key \<mapsto> (json_dumps w c, Some (now st + 3600)))\<rparr>) \<and>
         reachable r"
  using assms
  by (auto simp: fetch_from_source_def Let_def redis_set_def
      split: http_outcome.splits option.splits sum.splits if_splits)

lemma fetch_found_inv:
  assumes "fetch_coin_metadata w symbol st = (Inr c, st1)" and "truthy c"
    and "external_calls st1 = external_calls st + 1"
  shows "\<exists>r. reachable r \<and>
           redis_client st1 =
             Some (r\<lparr>store := (store r)(cache_key w symbol \<mapsto>
                                   (json_dumps w c, Some (now st + 3600)))\<rparr>)"
proof (cases "redis_client st")
  case None
  with assms show ?thesis by (simp add: fetch_coin_metadata_def)
next
  case (Some r)
  show ?thesis
  proof (cases "redis_get r (now st) (cache_key w symbol)")
    case (Inl e)
    with Some assms show ?thesis by (simp add: fetch_coin_metadata_def Let_def)
  next
    case (Inr cached)
    show ?thesis
    proof (cases "is_miss cached")
      case True
      from fetch_miss [OF Some Inr True] assms(1)
      have "fetch_from_source w r (cache_key w symbol) symbol
              (emit (CacheGet (cache_key w symbol)) st) = (Inr c, st1)" by simp
      from fetch_from_source_inv [OF this assms(2)] show ?thesis by auto
    next
      case False
      then obtain v where v: "cached = Some v" "v \<noteq> []" by (cases cached) auto
      from fetch_hit [OF Some Inr [unfolded v(1)] v(2)] assms(1)
      have "st1 = emit (CacheGet (cache_key w symbol)) st" by simp
      with assms(3) show ?thesis by simp
    qed
  qed
qed

lemma redis_get_fresh:
  assumes "reachable r" and "t < e"
  shows "redis_get (r\<lparr>store := (store r)(k \<mapsto> (v, Some e))\<rparr>) t k = Inr (Some v)"
  using assms by (simp add: redis_get_def)

text \<open>What a call adds to the trace, and where it can change the store.\<close>

lemma fetch_from_source_events:
  "\<exists>evs. trace (snd (fetch_from_source w r key symbol st)) = trace st @ evs \<and>
         list_all (\<lambda>ev. event_key ev = None \<or> event_key ev = Some key) evs"
  by (auto simp: fetch_from_source_def Let_def
      split: http_outcome.splits option.splits sum.splits)

lemma fetch_events:
  assumes "redis_client st = Some r"
  shows "\<exists>evs. trace (snd (fetch_coin_metadata w symbol st)) =
                 trace st @ CacheGet (cache_key w symbol) # evs \<and>
               list_all (\<lambda>ev. event_key ev = None \<or> event_key ev = Some (cache_key w symbol)) evs"
proof -
  let ?k = "cache_key w symbol"
  let ?st1 = "emit (CacheGet ?k) st"
  from fetch_from_source_events [of w r ?k symbol ?st1]
  obtain evs where evs: "trace (snd (fetch_from_source w r ?k symbol ?st1)) = trace ?st1 @ evs"
    "list_all (\<lambda>ev. event_key ev = None \<or> event_key ev = Some ?k) evs"
    by blast
  show ?thesis
  proof (cases "redis_get r (now st) ?k")
    case (Inl e)
    with assms show ?thesis by (simp add: fetch_coin_metadata_def Let_def)
  next
    case (Inr cached)
    show ?thesis
    proof (cases "is_miss cached")
      case True
      from fetch_miss [OF assms Inr True] evs show ?thesis by simp
    next
      case False
      then obtain v where v: "cached = Some v" "v \<noteq> []" by (cases cached) auto
      from fetch_hit [OF assms Inr [unfolded v(1)] v(2)] show ?thesis by simp
    qed
  qed
qed

lemma fetch_from_source_store:
  assumes "redis_client st = Some r"
    and "redis_client (snd (fetch_from_source w r key symbol st)) = Some r'" and "k \<noteq> key"
  shows "store r' k = store r k"
  using assms
  by (auto simp: fetch_from_source_def Let_def redis_set_def
      split: http_outcome.splits option.splits sum.splits if_splits)

lemma fetch_store:
  assumes "redis_client st = Some r"
    and "redis_client (snd (fetch_coin_metadata w symbol st)) = Some r'"
    and "k \<noteq> cache_key w symbol"
  shows "store r' k = store r k"
proof (cases "redis_get r (now st) (cache_key w symbol)")
  case (Inl e)
  with assms show ?thesis by (simp add: fetch_coin_metadata_def Let_def)
next
  case (Inr cached)
  show ?thesis
  proof (cases "is_miss cached")
    case True
    from fetch_miss [OF assms(1) Inr True] assms(2)
    have "redis_client (snd (fetch_from_source w r (cache_key w symbol) symbol
            (emit (CacheGet (cache_key w symbol)) st))) = Some r'" by simp
    from fetch_from_source_store [OF _ this assms(3)] assms(1) show ?thesis by simp
  next
    case False
    then obtain v where v: "cached = Some v" "v \<noteq> []" by (cases cached) auto
    from fetch_hit [OF assms(1) Inr [unfolded v(1)] v(2)] assms(1,2) show ?thesis by simp
  qed
qed

lemma update_apply_nothing:
  "update_apply crypto \<lparr>upd_symbol = None, upd_name = None, upd_metadata = None\<rparr> st =
     (Inl PostgresSyntaxError, st)"
  by (simp add: update_apply_def)

section \<open>The scenarios, evaluated\<close>

lemmas greek_defs = capital_alpha_sigma_def alpha_sigma_def alpha_final_sigma_def greek_coin_def

lemma lower_samples:
  "lower sample_env ''BTC'' = ''btc''" "lower sample_env ''btc'' = ''btc''"
  "lower sample_env ''BTC2'' = ''btc2''" "lower sample_env ''DOGE'' = ''doge''"
  "lower sample_env capital_alpha_sigma = alpha_final_sigma"
  "lower sample_env alpha_sigma = alpha_sigma"
  by (simp_all add: sample_env_def lower_values_def greek_defs)

lemma upper_samples:
  "upper sample_env ''btc'' = ''BTC''" "upper sample_env ''BTC'' = ''BTC''"
  "upper sample_env alpha_sigma = capital_alpha_sigma"
  by (simp_all add: sample_env_def upper_values_def greek_defs)

lemma other_env_fields [simp]:
  "lower timeout_env = lower sample_env" "upper timeout_env = upper sample_env"
  "json_loads timeout_env = json_loads sample_env" "json_dumps timeout_env = json_dumps sample_env"
  "lower bad_gateway_env = lower sample_env" "lower greek_env = lower sample_env"
  "upper greek_env = upper sample_env"
  "http_get timeout_env url = Transport_Failure"
  "http_get bad_gateway_env url = Response 503 None"
  "http_get greek_env url = Response 200 (Some (JObj [(''coins'', JArr [greek_coin])]))"
  by (simp_all add: timeout_env_def bad_gateway_env_def greek_env_def)

lemma sample_keys:
  "cache_key sample_env ''BTC'' = ''coingecko:btc''"
  "cache_key sample_env ''btc'' = ''coingecko:btc''"
  "cache_key sample_env ''DOGE'' = ''coingecko:doge''"
  "cache_key timeout_env s = cache_key sample_env s"
  "cache_key bad_gateway_env s = cache_key sample_env s"
  "cache_key greek_env s = cache_key sample_env s"
  by (simp_all add: cache_key_def lower_samples)

lemma sample_codec:
  "truthy btc_coin" "json_dumps sample_env btc_coin = ''btc-record''"
  "json_loads sample_env ''btc-record'' = Some btc_coin"
  by (simp_all add: sample_env_def btc_coin_def)

lemma sample_miss:
  "redis_client sample_state = Some empty_redis"
  "redis_get empty_redis (now sample_state) k = Inr None"
  by (simp_all add: sample_state_def empty_redis_def redis_get_def)

lemma sample_response:
  "http_get sample_env url = Response 200 (Some (JObj [(''coins'', JArr [btc2_coin, btc_coin])]))"
  "dict_get (JObj [(''coins'', JArr [btc2_coin, btc_coin])]) ''coins'' (JArr []) =
     Inr (JArr [btc2_coin, btc_coin])"
  by (simp_all add: sample_env_def)

lemma sample_candidates: "candidates [btc2_coin, btc_coin]" "candidates [greek_coin]"
  by (simp_all add: candidates_def btc_coin_def btc2_coin_def greek_coin_def)

lemma sample_matches:
  "matches sample_env ''BTC'' btc_coin" "\<not> matches sample_env ''BTC'' btc2_coin"
  "\<not> matches sample_env ''DOGE'' btc_coin" "\<not> matches sample_env ''DOGE'' btc2_coin"
  by (simp_all add: matches_def btc_coin_def btc2_coin_def lower_samples)

lemma sample_find:
  "find_coin sample_env [btc2_coin, btc_coin] ''BTC'' = Inr btc_coin"
  "find_coin sample_env [btc2_coin, btc_coin] ''DOGE'' = Inr JNull"
  "find_coin sample_env [greek_coin] alpha_sigma = Inr JNull"
  by (simp_all add: btc_coin_def btc2_coin_def greek_coin_def lower_samples)
    (simp_all add: greek_defs)

lemma first_fetch_sample:
  "fetch_coin_metadata sample_env ''BTC'' sample_state =
     (Inr btc_coin,
      sample_state
        \<lparr>redis_client :=
           Some (empty_redis\<lparr>store := [''coingecko:btc'' \<mapsto> (''btc-record'', Some 4600)]\<rparr>),
         trace :=
           [CacheGet ''coingecko:btc'',
            HttpGet ''https://api.coingecko.com/api/v3/search?query=BTC'',
            CacheSet ''coingecko:btc'' ''btc-record'' 3600]\<rparr>)"
  by (simp add: fetch_coin_metadata_def fetch_from_source_def Let_def sample_keys sample_miss
      sample_response sample_find sample_codec redis_set_def search_url_def emit_def
      del: find_coin.simps)
    (simp add: sample_state_def empty_redis_def)

lemma cached_state_eq:
  "cached_state =
     \<lparr>redis_client =
        Some \<lparr>reachable = True, store = [''coingecko:btc'' \<mapsto> (''btc-record'', Some 4600)]\<rparr>,
      now = 4599,
      trace =
        [CacheGet ''coingecko:btc'',
         HttpGet ''https://api.coingecko.com/api/v3/search?query=BTC'',
         CacheSet ''coingecko:btc'' ''btc-record'' 3600],
      cryptos = [btc_row], next_id = 2\<rparr>"
  by (simp add: cached_state_def first_fetch_sample) (simp add: sample_state_def empty_redis_def)

lemma cached_hit:
  "redis_client cached_state =
     Some \<lparr>reachable = True, store = [''coingecko:btc'' \<mapsto> (''btc-record'', Some 4600)]\<rparr>"
  "redis_get \<lparr>reachable = True, store = [''coingecko:btc'' \<mapsto> (''btc-record'', Some 4600)]\<rparr>
     (now cached_state) ''coingecko:btc'' = Inr (Some ''btc-record'')"
  by (simp_all add: cached_state_eq redis_get_def)

lemma sample_row: "Crypto_get 1 sample_state = Inr (Some btc_row)"
  by (simp add: Crypto_get_def int32_def sample_state_def btc_row_def)

lemma timeout_fetch_sample:
  "fetch_coin_metadata timeout_env ''BTC'' sample_state =
     (Inl HttpxTransportError,
      sample_state
        \<lparr>trace :=
           [CacheGet ''coingecko:btc'',
            HttpGet ''https://api.coingecko.com/api/v3/search?query=BTC'']\<rparr>)"
  by (simp add: fetch_coin_metadata_def fetch_from_source_def Let_def sample_keys sample_miss
      search_url_def emit_def)
    (simp add: sample_state_def)

lemma doge_fetch_sample:
  "fetch_coin_metadata sample_env ''DOGE'' sample_state =
     (Inr JNull,
      sample_state
        \<lparr>trace :=
           [CacheGet ''coingecko:doge'',
            HttpGet ''https://api.coingecko.com/api/v3/search?query=DOGE'']\<rparr>)"
  by (simp add: fetch_coin_metadata_def fetch_from_source_def Let_def sample_keys sample_miss
      sample_response sample_find search_url_def emit_def del: find_coin.simps)
    (simp add: sample_state_def)


section \<open>The claims\<close>

subsection \<open>C1: a cache hit returns the stored record without an external call\<close>

text \<open>
  Claim C1. Whenever the cache lookup for a symbol returns a stored, non-empty value,
  \<open>fetch_coin_metadata\<close> returns what \<open>json.loads\<close> makes of that value (or its
  decoding error) after the one cache read, and issues no request to the external
  source. In particular: when a first call went to the source and returned a record
  \<open>c\<close>, a second call for the same symbol less than 3600 seconds after the first,
  with the cache left as the first call left it, returns \<open>c\<close> again and issues no
  request, whatever the source would answer then. The facts about Python that the
  second part needs are hypotheses: \<open>json.dumps\<close> never yields the empty string,
  \<open>json.loads\<close> inverts it, and \<open>str.lower()\<close> gives the symbol the same lower-case
  form in both calls.
\<close>

theorem resolve_hit_returns_cached:
  "(redis_client st0 = Some r \<and> redis_get r (now st0) (cache_key w symbol) = Inr (Some v) \<and> v \<noteq> [] \<longrightarrow>
      fetch_coin_metadata w symbol st0 =
        ((case json_loads w v of None \<Rightarrow> Inl JSONDecodeError | Some j \<Rightarrow> Inr j),
         emit (CacheGet (cache_key w symbol)) st0) \<and>
      external_calls (snd (fetch_coin_metadata w symbol st0)) = external_calls st0) \<and>
   (fetch_coin_metadata w symbol st = (Inr c, st1) \<and> truthy c \<and>
    external_calls st1 = external_calls st + 1 \<and>
    json_dumps w c \<noteq> [] \<and> json_loads w' (json_dumps w c) = Some c \<and>
    lower w' symbol = lower w symbol \<and>
    redis_client st2 = redis_client st1 \<and> now st2 < now st + 3600 \<longrightarrow>
      fetch_coin_metadata w' symbol st2 = (Inr c, emit (CacheGet (cache_key w symbol)) st2) \<and>
      external_calls (snd (fetch_coin_metadata w' symbol st2)) = external_calls st2)"
proof (intro conjI impI)
  assume h: "redis_client st0 = Some r \<and>
    redis_get r (now st0) (cache_key w symbol) = Inr (Some v) \<and> v \<noteq> []"
  then have hit: "fetch_coin_metadata w symbol st0 =
        ((case json_loads w v of None \<Rightarrow> Inl JSONDecodeError | Some j \<Rightarrow> Inr j),
         emit (CacheGet (cache_key w symbol)) st0)"
    by (intro fetch_hit) auto
  show "fetch_coin_metadata w symbol st0 =
        ((case json_loads w v of None \<Rightarrow> Inl JSONDecodeError | Some j \<Rightarrow> Inr j),
         emit (CacheGet (cache_key w symbol)) st0)"
    by (rule hit)
  show "external_calls (snd (fetch_coin_metadata w symbol st0)) = external_calls st0"
    by (simp add: hit)
next
  assume h: "fetch_coin_metadata w symbol st = (Inr c, st1) \<and> truthy c \<and>
    external_calls st1 = external_calls st + 1 \<and>
    json_dumps w c \<noteq> [] \<and> json_loads w' (json_dumps w c) = Some c \<and>
    lower w' symbol = lower w symbol \<and>
    redis_client st2 = redis_client st1 \<and> now st2 < now st + 3600"
  then obtain q where q: "reachable q"
    and st1: "redis_client st1 =
      Some (q\<lparr>store := (store q)(cache_key w symbol \<mapsto> (json_dumps w c, Some (now st + 3600)))\<rparr>)"
    using fetch_found_inv [of w symbol st c st1] by auto
  let ?q' = "q\<lparr>store := (store q)(cache_key w symbol \<mapsto> (json_dumps w c, Some (now st + 3600)))\<rparr>"
  have key: "cache_key w' symbol = cache_key w symbol"
    using h by (simp add: cache_key_def)
  have client: "redis_client st2 = Some ?q'"
    using h st1 by simp
  have get: "redis_get ?q' (now st2) (cache_key w' symbol) = Inr (Some (json_dumps w c))"
    unfolding key using h q by (intro redis_get_fresh) auto
  have hit: "fetch_coin_metadata w' symbol st2 = (Inr c, emit (CacheGet (cache_key w symbol)) st2)"
    using fetch_hit [OF client get] h by (simp add: key)
  show "fetch_coin_metadata w' symbol st2 = (Inr c, emit (CacheGet (cache_key w symbol)) st2)"
    by (rule hit)
  show "external_calls (snd (fetch_coin_metadata w' symbol st2)) = external_calls st2"
    by (simp add: hit)
qed

theorem resolve_hit_returns_cached_witness:
  "fetch_coin_metadata sample_env ''BTC'' sample_state =
     (Inr btc_coin, snd (fetch_coin_metadata sample_env ''BTC'' sample_state)) \<and>
   external_calls (snd (fetch_coin_metadata sample_env ''BTC'' sample_state)) = 1 \<and>
   fetch_coin_metadata timeout_env ''BTC'' cached_state =
     (Inr btc_coin, emit (CacheGet ''coingecko:btc'') cached_state) \<and>
   external_calls (snd (fetch_coin_metadata timeout_env ''BTC'' cached_state)) = 1"
proof -
  let ?st1 = "snd (fetch_coin_metadata sample_env ''BTC'' sample_state)"
  let ?r = "\<lparr>reachable = True, store = [''coingecko:btc'' \<mapsto> (''btc-record'', Some 4600)]\<rparr>"
  have first: "fetch_coin_metadata sample_env ''BTC'' sample_state = (Inr btc_coin, ?st1)"
    by (simp add: first_fetch_sample)
  have calls: "external_calls sample_state = 0" "external_calls ?st1 = 1"
    "external_calls cached_state = 1"
    by (simp_all add: first_fetch_sample cached_state_eq external_calls_def)
      (simp add: sample_state_def)
  have later: "redis_client cached_state = redis_client ?st1"
    "now cached_state < now sample_state + 3600"
    by (simp_all add: cached_state_def) (simp add: sample_state_def)
  show ?thesis
    using resolve_hit_returns_cached
      [where ?st0.0 = cached_state and r = ?r and v = "''btc-record''" and symbol = "''BTC''"
         and w = sample_env and st = sample_state and c = btc_coin and ?st1.0 = ?st1
         and w' = timeout_env and ?st2.0 = cached_state]
      first calls later cached_hit sample_codec
    by (simp add: sample_keys)
qed

subsection \<open>C2: the first candidate with the same lower-case form is selected\<close>




subsection \<open>C3: a miss with a match writes the record with a TTL of 3600 seconds\<close>




subsection \<open>C4: symbols with the same lower-case form share the cache entry\<close>

text \<open>
  Claim C4 says that two symbols that differ only in letter case have the same cache
  key. The key is built from \<open>str.lower()\<close>: the Greek word alpha, sigma and its
  upper-case form have different lower-case forms, hence different keys.
\<close>

theorem capital_sigma_other_key_counterexample:
  "upper sample_env alpha_sigma = capital_alpha_sigma \<and>
   cache_key sample_env alpha_sigma = ''coingecko:'' @ alpha_sigma \<and>
   cache_key sample_env capital_alpha_sigma = ''coingecko:'' @ alpha_final_sigma \<and>
   cache_key sample_env capital_alpha_sigma \<noteq> cache_key sample_env alpha_sigma"
  by (simp add: cache_key_def lower_samples upper_samples) (simp add: greek_defs)

text \<open>
  Claim C4, amended. The cache key is the fixed prefix \<open>coingecko:\<close> followed by the
  lower-case form of the symbol. For two symbols \<open>a\<close> and \<open>b\<close> with the same
  lower-case form the keys are equal, and a call for \<open>b\<close> works on the entry of
  \<open>a\<close>: the first thing it does is the cache read at the key of \<open>a\<close>, every cache
  read or write it issues is at that key, on a hit it returns what is stored there, and
  it leaves every other key of the store as it was.
\<close>

theorem same_lower_same_cache_entry:
  assumes "lower w a = lower w b" and "redis_client st = Some r"
  shows "cache_key w a = ''coingecko:'' @ lower w a \<and>
         cache_key w b = cache_key w a \<and>
         take 1 (new_events st (snd (fetch_coin_metadata w b st))) = [CacheGet (cache_key w a)] \<and>
         list_all (\<lambda>ev. event_key ev = None \<or> event_key ev = Some (cache_key w a))
           (new_events st (snd (fetch_coin_metadata w b st))) \<and>
         (redis_get r (now st) (cache_key w a) = Inr (Some v) \<and> v \<noteq> [] \<longrightarrow>
            fetch_coin_metadata w b st =
              ((case json_loads w v of None \<Rightarrow> Inl JSONDecodeError | Some j \<Rightarrow> Inr j),
               emit (CacheGet (cache_key w a)) st)) \<and>
         (redis_client (snd (fetch_coin_metadata w b st)) = Some r' \<and> k \<noteq> cache_key w a \<longrightarrow>
            store r' k = store r k)"
proof -
  have key: "cache_key w b = cache_key w a"
    using assms(1) by (simp add: cache_key_def)
  from fetch_events [OF assms(2), of w b]
  obtain evs where evs:
    "trace (snd (fetch_coin_metadata w b st)) = trace st @ CacheGet (cache_key w a) # evs"
    "list_all (\<lambda>ev. event_key ev = None \<or> event_key ev = Some (cache_key w a)) evs"
    unfolding key by blast
  have new: "new_events st (snd (fetch_coin_metadata w b st)) = CacheGet (cache_key w a) # evs"
    by (simp add: new_events_def evs(1))
  have hit: "fetch_coin_metadata w b st =
      ((case json_loads w v of None \<Rightarrow> Inl JSONDecodeError | Some j \<Rightarrow> Inr j),
       emit (CacheGet (cache_key w a)) st)"
    if "redis_get r (now st) (cache_key w a) = Inr (Some v) \<and> v \<noteq> []"
    using fetch_hit [OF assms(2), of w b v] that by (simp add: key)
  have frame: "store r' k = store r k"
    if "redis_client (snd (fetch_coin_metadata w b st)) = Some r' \<and> k \<noteq> cache_key w a"
    using fetch_store [OF assms(2), of w b r' k] that by (simp add: key)
  show ?thesis
    using key new evs(2) hit frame by (simp add: cache_key_def)
qed

theorem same_lower_same_cache_entry_witness:
  "lower sample_env ''btc'' = lower sample_env ''BTC'' \<and>
   cache_key sample_env ''btc'' = ''coingecko:btc'' \<and>
   cache_key sample_env ''BTC'' = ''coingecko:btc'' \<and>
   new_events cached_state (snd (fetch_coin_metadata sample_env ''BTC'' cached_state)) =
     [CacheGet ''coingecko:btc''] \<and>
   fetch_coin_metadata sample_env ''BTC'' cached_state =
     (Inr btc_coin, emit (CacheGet ''coingecko:btc'') cached_state) \<and>
   take 1 (new_events sample_state (snd (fetch_coin_metadata sample_env ''BTC'' sample_state))) =
     [CacheGet ''coingecko:btc''] \<and>
   list_all (\<lambda>ev. event_key ev = None \<or> event_key ev = Some ''coingecko:btc'')
     (new_events sample_state (snd (fetch_coin_metadata sample_env ''BTC'' sample_state)))"
proof -
  let ?r = "\<lparr>reachable = True, store = [''coingecko:btc'' \<mapsto> (''btc-record'', Some 4600)]\<rparr>"
  have same: "lower sample_env ''btc'' = lower sample_env ''BTC''"
    by (simp add: lower_samples)
  note at_hit = same_lower_same_cache_entry
    [OF same cached_hit(1), where v = "''btc-record''", unfolded sample_keys]
  note at_miss = same_lower_same_cache_entry
    [OF same sample_miss(1), unfolded sample_keys]
  from at_hit cached_hit(2)
  have hit: "fetch_coin_metadata sample_env ''BTC'' cached_state =
      (Inr btc_coin, emit (CacheGet ''coingecko:btc'') cached_state)"
    by (simp add: sample_codec)
  have events: "new_events cached_state (emit (CacheGet ''coingecko:btc'') cached_state) =
      [CacheGet ''coingecko:btc'']"
    by (simp add: new_events_def)
  from at_miss
  have miss: "take 1 (new_events sample_state
        (snd (fetch_coin_metadata sample_env ''BTC'' sample_state))) = [CacheGet ''coingecko:btc'']"
    "list_all (\<lambda>ev. event_key ev = None \<or> event_key ev = Some ''coingecko:btc'')
       (new_events sample_state (snd (fetch_coin_metadata sample_env ''BTC'' sample_state)))"
    by blast+
  show ?thesis
    using same miss by (simp only: hit events sample_keys snd_conv)
qed

subsection \<open>C5: a negative result is not cached\<close>

text \<open>
  Claim C5. Whenever the lookup misses the cache and the source answers with status 200
  and a list of candidates none of which has a symbol with the lower-case form of the
  query (as is the case when none equals the query up to letter case), the call returns
  \<open>None\<close> (not found), leaves Redis as it was and issues no cache write; a call for
  the same symbol that follows immediately issues a request to the source again,
  whatever the source answers then.
\<close>

theorem resolve_no_match_not_cached:
  assumes "redis_client st = Some r"
    and "redis_get r (now st) (cache_key w symbol) = Inr cached" and "is_miss cached"
    and "http_get w (search_url symbol) = Response 200 (Some data)"
    and "dict_get data ''coins'' (JArr []) = Inr (JArr cs)"
    and "candidates cs" and "first_match w cs symbol = None"
    and "lower w' symbol = lower w symbol"
  shows "fetch_coin_metadata w symbol st =
           (Inr JNull,
            emit (HttpGet (search_url symbol)) (emit (CacheGet (cache_key w symbol)) st)) \<and>
         redis_client (snd (fetch_coin_metadata w symbol st)) = redis_client st \<and>
         cache_writes (snd (fetch_coin_metadata w symbol st)) = cache_writes st \<and>
         external_calls (snd (fetch_coin_metadata w' symbol (snd (fetch_coin_metadata w symbol st))))
           = external_calls (snd (fetch_coin_metadata w symbol st)) + 1"
proof -
  let ?k = "cache_key w symbol"
  let ?st1 = "emit (HttpGet (search_url symbol)) (emit (CacheGet ?k) st)"
  have key: "cache_key w' symbol = ?k"
    using assms(8) by (simp add: cache_key_def)
  have sel: "find_coin w cs symbol = Inr JNull"
    using find_coin_first_match [OF assms(6), of w symbol] assms(7) by simp
  have "fetch_coin_metadata w symbol st = fetch_from_source w r ?k symbol (emit (CacheGet ?k) st)"
    by (rule fetch_miss [OF assms(1-3)])
  also have "\<dots> = (Inr JNull, ?st1)"
    by (rule fetch_from_source_absent [OF assms(4,5) sel]) simp
  finally have first: "fetch_coin_metadata w symbol st = (Inr JNull, ?st1)" .
  have "fetch_coin_metadata w' symbol ?st1 =
          fetch_from_source w' r (cache_key w' symbol) symbol
            (emit (CacheGet (cache_key w' symbol)) ?st1)"
    using assms(1-3) by (intro fetch_miss [where cached = cached]) (simp_all add: key)
  then have again: "external_calls (snd (fetch_coin_metadata w' symbol ?st1)) = external_calls ?st1 + 1"
    by (simp add: fetch_from_source_calls)
  show ?thesis
    using again by (simp add: first)
qed

theorem resolve_no_match_not_cached_witness:
  "fetch_coin_metadata sample_env ''DOGE'' sample_state =
     (Inr JNull,
      sample_state
        \<lparr>trace :=
           [CacheGet ''coingecko:doge'',
            HttpGet ''https://api.coingecko.com/api/v3/search?query=DOGE'']\<rparr>) \<and>
   cache_writes (snd (fetch_coin_metadata sample_env ''DOGE'' sample_state)) = 0 \<and>
   external_calls (snd (fetch_coin_metadata sample_env ''DOGE'' sample_state)) = 1 \<and>
   external_calls
     (snd (fetch_coin_metadata sample_env ''DOGE''
        (snd (fetch_coin_metadata sample_env ''DOGE'' sample_state)))) = 2"
proof -
  let ?st1 = "sample_state
        \<lparr>trace :=
           [CacheGet ''coingecko:doge'',
            HttpGet ''https://api.coingecko.com/api/v3/search?query=DOGE'']\<rparr>"
  have sel: "first_match sample_env [btc2_coin, btc_coin] ''DOGE'' = None"
    by (simp add: first_match_def sample_matches)
  have miss: "is_miss None" by simp
  have st1: "emit (HttpGet (search_url ''DOGE''))
      (emit (CacheGet (cache_key sample_env ''DOGE'')) sample_state) = ?st1"
    by (simp add: emit_def sample_keys search_url_def sample_state_def)
  note claim = resolve_no_match_not_cached
    [OF sample_miss(1) sample_miss(2) miss sample_response(1) sample_response(2)
        sample_candidates(1) sel refl, unfolded st1]
  from claim have first: "fetch_coin_metadata sample_env ''DOGE'' sample_state = (Inr JNull, ?st1)"
    by (rule conjunct1)
  have counts: "cache_writes sample_state = 0" "external_calls ?st1 = 1"
    by (simp_all add: cache_writes_def external_calls_def sample_state_def)
  from claim counts show ?thesis
    by (simp only: first snd_conv) simp
qed

subsection \<open>C6: a failure of the external source\<close>

text \<open>
  Claim C6 says that a call of the source that does not complete, or that completes
  with a status other than success, fails with the 502 error. For a transport failure
  the code does not: \<open>client.get\<close> raises inside httpx, nothing catches it, and the
  exception that leaves \<open>fetch_coin_metadata\<close> is the transport error itself.
\<close>

theorem transport_failure_counterexample:
  "fst (fetch_coin_metadata timeout_env ''BTC'' sample_state) = Inl HttpxTransportError \<and>
   fst (fetch_coin_metadata timeout_env ''BTC'' sample_state) \<noteq> Inl (HTTPException 502)"
  by (simp add: timeout_fetch_sample)

text \<open>
  Claim C6, amended. After a cache miss, a response with a status other than 200 raises
  \<open>HTTPException(502)\<close>, and a transport failure (no response, a timeout) raises the
  transport error of httpx, which is not converted. In both cases the call ends in an
  error, not in the not-found result \<open>None\<close>, Redis is left as it was and no cache
  write is issued.
\<close>

theorem upstream_failure_raises:
  assumes "redis_client st = Some r"
    and "redis_get r (now st) (cache_key w symbol) = Inr cached" and "is_miss cached"
    and "(case http_get w (search_url symbol) of
            Transport_Failure \<Rightarrow> True
          | Response status_code body \<Rightarrow> status_code \<noteq> 200)"
  shows "fetch_coin_metadata w symbol st =
           (Inl (case http_get w (search_url symbol) of
                   Transport_Failure \<Rightarrow> HttpxTransportError
                 | Response status_code body \<Rightarrow> HTTPException 502),
            emit (HttpGet (search_url symbol)) (emit (CacheGet (cache_key w symbol)) st)) \<and>
         redis_client (snd (fetch_coin_metadata w symbol st)) = redis_client st \<and>
         cache_writes (snd (fetch_coin_metadata w symbol st)) = cache_writes st"
proof -
  let ?k = "cache_key w symbol"
  have "fetch_coin_metadata w symbol st = fetch_from_source w r ?k symbol (emit (CacheGet ?k) st)"
    by (rule fetch_miss [OF assms(1-3)])
  also have "\<dots> =
      (Inl (case http_get w (search_url symbol) of
              Transport_Failure \<Rightarrow> HttpxTransportError
            | Response status_code body \<Rightarrow> HTTPException 502),
       emit (HttpGet (search_url symbol)) (emit (CacheGet ?k) st))"
    using assms(4) by (simp add: fetch_from_source_def Let_def split: http_outcome.splits)
  finally show ?thesis by simp
qed

theorem upstream_failure_raises_witness:
  "fetch_coin_metadata timeout_env ''BTC'' sample_state =
     (Inl HttpxTransportError,
      sample_state
        \<lparr>trace :=
           [CacheGet ''coingecko:btc'',
            HttpGet ''https://api.coingecko.com/api/v3/search?query=BTC'']\<rparr>) \<and>
   fetch_coin_metadata bad_gateway_env ''BTC'' sample_state =
     (Inl (HTTPException 502),
      sample_state
        \<lparr>trace :=
           [CacheGet ''coingecko:btc'',
            HttpGet ''https://api.coingecko.com/api/v3/search?query=BTC'']\<rparr>) \<and>
   cache_writes (snd (fetch_coin_metadata timeout_env ''BTC'' sample_state)) = 0 \<and>
   cache_writes (snd (fetch_coin_metadata bad_gateway_env ''BTC'' sample_state)) = 0"
proof -
  have "is_miss None" by simp
  from upstream_failure_raises [OF sample_miss(1) sample_miss(2) this, of timeout_env "''BTC''"]
    upstream_failure_raises [OF sample_miss(1) sample_miss(2) this, of bad_gateway_env "''BTC''"]
  show ?thesis
    by (simp add: sample_keys search_url_def emit_def)
      (simp add: sample_state_def cache_writes_def)
qed

subsection \<open>C7: creating a symbol that exists is a conflict\<close>

text \<open>
  Claim C7. Whenever the table holds a row whose symbol is the upper-cased symbol of the
  request, \<open>create_crypto\<close> raises \<open>HTTPException(409)\<close> and leaves the whole
  state as it was: no request to the source, no cache access, no change of the table.
\<close>

theorem create_duplicate_conflict:
  assumes "row \<in> set (cryptos st)" and "crypto_symbol row = upper w symbol"
  shows "create_crypto w symbol st = (Inl (HTTPException 409), st) \<and>
         external_calls (snd (create_crypto w symbol st)) = external_calls st \<and>
         cryptos (snd (create_crypto w symbol st)) = cryptos st"
proof -
  have "find (\<lambda>row. crypto_symbol row = upper w symbol) (cryptos st) \<noteq> None"
    using assms by (auto simp: find_None_iff)
  then have "create_crypto w symbol st = (Inl (HTTPException 409), st)"
    by (auto simp: create_crypto_def query_first_by_symbol_def)
  then show ?thesis by simp
qed

theorem create_duplicate_conflict_witness:
  "create_crypto timeout_env ''btc'' sample_state = (Inl (HTTPException 409), sample_state) \<and>
   external_calls (snd (create_crypto timeout_env ''btc'' sample_state)) = 0"
proof -
  have "btc_row \<in> set (cryptos sample_state)" "crypto_symbol btc_row = upper timeout_env ''btc''"
    by (simp_all add: sample_state_def btc_row_def upper_samples)
  from create_duplicate_conflict [OF this]
  show ?thesis
    by (simp add: external_calls_def) (simp add: sample_state_def)
qed

subsection \<open>C8: a failed lookup leaves the entity as it was\<close>

text \<open>
  Claim C8. For an existing row, whenever \<open>fetch_coin_metadata\<close> raises or returns a
  falsy result (not found), a refresh of the row and an update of the row with that
  non-empty symbol both end in the same failure (the exception raised, respectively
  \<open>HTTPException(404)\<close>), and the table is left as it was.
\<close>

theorem failed_resolve_leaves_entity:
  assumes "Crypto_get cid st = Inr (Some crypto)"
    and "fetch_coin_metadata w symbol st = (res, st1)"
    and "(case res of Inl e \<Rightarrow> True | Inr metadata \<Rightarrow> \<not> truthy metadata)"
  shows "(symbol = crypto_symbol crypto \<longrightarrow>
            refresh_crypto w cid st =
              (Inl (case res of Inl e \<Rightarrow> e | Inr metadata \<Rightarrow> HTTPException 404), st1)) \<and>
         (symbol \<noteq> [] \<longrightarrow>
            update_crypto w cid (Some symbol) st =
              (Inl (case res of Inl e \<Rightarrow> e | Inr metadata \<Rightarrow> HTTPException 404), st1)) \<and>
         cryptos st1 = cryptos st"
proof -
  have "cryptos st1 = cryptos st"
    using fetch_table [of w symbol st] assms(2) by simp
  moreover have "refresh_crypto w cid st =
      (Inl (case res of Inl e \<Rightarrow> e | Inr metadata \<Rightarrow> HTTPException 404), st1)"
    if "symbol = crypto_symbol crypto"
    using assms that by (cases res) (simp_all add: refresh_crypto_def)
  moreover have "update_crypto w cid (Some symbol) st =
      (Inl (case res of Inl e \<Rightarrow> e | Inr metadata \<Rightarrow> HTTPException 404), st1)"
    if "symbol \<noteq> []"
    using assms that by (cases res) (simp_all add: update_crypto_def Let_def)
  ultimately show ?thesis by blast
qed

theorem failed_resolve_leaves_entity_witness:
  "refresh_crypto timeout_env 1 sample_state =
     (Inl HttpxTransportError,
      sample_state
        \<lparr>trace :=
           [CacheGet ''coingecko:btc'',
            HttpGet ''https://api.coingecko.com/api/v3/search?query=BTC'']\<rparr>) \<and>
   update_crypto sample_env 1 (Some ''DOGE'') sample_state =
     (Inl (HTTPException 404),
      sample_state
        \<lparr>trace :=
           [CacheGet ''coingecko:doge'',
            HttpGet ''https://api.coingecko.com/api/v3/search?query=DOGE'']\<rparr>) \<and>
   cryptos (snd (refresh_crypto timeout_env 1 sample_state)) = [btc_row] \<and>
   cryptos (snd (update_crypto sample_env 1 (Some ''DOGE'') sample_state)) = [btc_row]"
proof -
  have sym: "crypto_symbol btc_row = ''BTC''"
    by (simp add: btc_row_def)
  have rows: "cryptos sample_state = [btc_row]"
    by (simp add: sample_state_def)
  from failed_resolve_leaves_entity [OF sample_row timeout_fetch_sample]
    failed_resolve_leaves_entity [OF sample_row doge_fetch_sample]
  show ?thesis
    by (simp add: sym rows)
qed

subsection \<open>C9: an unavailable cache is fatal\<close>

text \<open>
  Claim C9. Whenever the Redis client was never created or the Redis server cannot be
  reached, \<open>fetch_coin_metadata\<close> fails, with \<open>HTTPException(500)\<close> in the first
  case and the connection error of the Redis client in the second, and issues no
  request to the external source.
\<close>

theorem cache_unavailable_fails_fast:
  assumes "redis_client st = None \<or> (\<exists>r. redis_client st = Some r \<and> \<not> reachable r)"
  shows "fetch_coin_metadata w symbol st =
           (case redis_client st of
              None \<Rightarrow> (Inl (HTTPException 500), st)
            | Some r \<Rightarrow> (Inl RedisConnectionError, emit (CacheGet (cache_key w symbol)) st)) \<and>
         external_calls (snd (fetch_coin_metadata w symbol st)) = external_calls st"
  using assms
  by (auto simp: fetch_coin_metadata_def Let_def redis_get_def)

theorem cache_unavailable_fails_fast_witness:
  "fetch_coin_metadata sample_env ''BTC'' (sample_state\<lparr>redis_client := None\<rparr>) =
     (Inl (HTTPException 500), sample_state\<lparr>redis_client := None\<rparr>) \<and>
   fetch_coin_metadata sample_env ''BTC'' unreachable_state =
     (Inl RedisConnectionError, emit (CacheGet ''coingecko:btc'') unreachable_state) \<and>
   external_calls (snd (fetch_coin_metadata sample_env ''BTC'' unreachable_state)) = 0"
proof -
  have none: "redis_client (sample_state\<lparr>redis_client := None\<rparr>) = None"
    by simp
  have down: "redis_client unreachable_state = Some (empty_redis\<lparr>reachable := False\<rparr>)"
    "\<not> reachable (empty_redis\<lparr>reachable := False\<rparr>)"
    by (simp_all add: unreachable_state_def)
  have calls: "external_calls unreachable_state = 0"
    by (simp add: external_calls_def unreachable_state_def sample_state_def)
  from cache_unavailable_fails_fast [of "sample_state\<lparr>redis_client := None\<rparr>" sample_env "''BTC''"]
    cache_unavailable_fails_fast [of unreachable_state sample_env "''BTC''"]
  show ?thesis
    using none down calls by (simp add: sample_keys)
qed

subsection \<open>C10: an update without a symbol\<close>

text \<open>
  Claim C10 says that an update whose body has no symbol, or the empty string, returns
  the row unchanged. The handler skips the lookup, as the claim says, but line 141
  applies the update in every case: with no column named the statement has an empty
  \<open>SET\<close> list, the database refuses it and the handler ends in that error instead of
  returning the row. The whole state is as it was.
\<close>

theorem update_without_symbol_raises:
  assumes "Crypto_get cid st = Inr (Some crypto)" and "symbol = None \<or> symbol = Some []"
  shows "update_crypto w cid symbol st = (Inl PostgresSyntaxError, st)"
  using assms by (auto simp: update_crypto_def Let_def update_apply_nothing)

theorem update_without_symbol_raises_witness:
  "update_crypto timeout_env 1 None sample_state = (Inl PostgresSyntaxError, sample_state) \<and>
   update_crypto timeout_env 1 (Some []) sample_state = (Inl PostgresSyntaxError, sample_state)"
  using update_without_symbol_raises [OF sample_row, of None timeout_env]
    update_without_symbol_raises [OF sample_row, of "Some []" timeout_env]
  by simp

end
